theory Spec2Isabelle
  imports Main "HOL-Library.Sublist"
begin

section \<open>The ACP adapter of src/index.ts: data model\<close>

text \<open>
  The adapter translates the event feed of the upstream agent runtime into session
  notifications for the downstream client. The model follows the TypeScript source:
  JavaScript strings are lists of characters (\<open>length\<close> is \<open>.length\<close>, \<open>drop n\<close> is
  \<open>.substring(n)\<close>, \<open>prefix p s\<close> is \<open>s.startsWith(p)\<close>), the objects used as
  dictionaries and the \<open>Map\<close> of a session are partial maps, every \<open>throw\<close> is a value
  of type \<open>error\<close>, and every call on the client connection is an entry of the
  returned trace.
\<close>

subsection \<open>Enumerations of the client protocol\<close>

datatype ToolCallStatus = Pending | InProgress | Completed | Failed

datatype ToolKind =
  Read | Edit | Delete | Move | Search | Execute | Think | Fetch | SwitchMode | Other

datatype PlanEntryPriority = PriorityHigh | PriorityMedium | PriorityLow

datatype PlanEntryStatus = EntryPending | EntryInProgress | EntryCompleted

datatype StopReason = end_turn | max_tokens | max_turn_requests | refusal | cancelled

subsection \<open>mapToolKind\<close>

text \<open>
  \<^verbatim>\<open>function mapToolKind(toolName: string): ToolKind\<close>: a chain of \<open>startsWith\<close> tests,
  in the order of the source.
\<close>

definition mapToolKind :: "string \<Rightarrow> ToolKind" where
  "mapToolKind toolName =
     (if prefix ''read'' toolName then Read
      else if prefix ''write'' toolName \<or> prefix ''edit'' toolName \<or>
              prefix ''apply'' toolName \<or> prefix ''insert'' toolName then Edit
      else if prefix ''execute'' toolName then Execute
      else if prefix ''search'' toolName \<or> prefix ''list'' toolName then Search
      else if prefix ''browser'' toolName then Fetch
      else if prefix ''update'' toolName \<or> prefix ''ask'' toolName \<or>
              prefix ''new_task'' toolName then Think
      else if prefix ''switch'' toolName then SwitchMode
      else Other)"

text \<open>
  The table of the specification (section 4.4, "Kind inference from tool name"), read as
  the specification words it: the first entry whose prefix matches gives the kind, and
  no match gives \<open>Other\<close>. It is compared with \<open>mapToolKind\<close> below.
\<close>

definition kind_prefix_table :: "(string \<times> ToolKind) list" where
  "kind_prefix_table =
     [(''read'', Read),
      (''write'', Edit), (''edit'', Edit), (''apply'', Edit), (''insert'', Edit),
      (''execute'', Execute),
      (''search'', Search), (''list'', Search),
      (''browser'', Fetch),
      (''update'', Think), (''ask'', Think), (''new_task'', Think),
      (''switch'', SwitchMode)]"

definition kind_by_first_prefix :: "string \<Rightarrow> ToolKind" where
  "kind_by_first_prefix toolName =
     (case find (\<lambda>(p, k). prefix p toolName) kind_prefix_table of
        Some (p, k) \<Rightarrow> k
      | None \<Rightarrow> Other)"

subsection \<open>Parts of the upstream runtime\<close>

text \<open>
  \<open>Part\<close> is a tagged union of the upstream SDK; every variant carries \<open>id\<close> and
  \<open>sessionID\<close>. A text part has an optional \<open>time\<close> object. The state of a tool part
  is tagged by \<open>status\<close>. Values that the source only passes to \<open>JSON.stringify\<close> are
  carried as the string that call returns. The fields \<open>content\<close> and \<open>locations\<close> of a
  tool part are read through a cast to \<open>any\<close> and may be absent.
\<close>

datatype PartTime = PartTime (time_start: int) (time_end: "int option")

datatype ContentBlock =
  TextContent string
| ImageContent (mimeType: string) (uri: string) (data: string)

datatype ToolCallContent =
  Content ContentBlock
| Diff (diff_path: string) (oldText: "string option") (newText: string)

datatype ToolOutput =
  DiffShaped (out_path: string) (out_oldText: "string option") (out_newText: string)
    (out_json: string)
| OtherOutput (out_json: string)

datatype ToolState =
  StatePending
| StateRunning (state_title: "string option") (input_json: string)
| StateCompleted ToolOutput
| StateError (error_json: string)

datatype PartBody =
  PartText (part_text: string) (time: "PartTime option")
| PartReasoning (part_text: string)
| PartTool (callID: string) (tool: string) (state: ToolState)
    (content: "ToolCallContent list option") (locations: "string list option")
| PartFile (mime: string) (filename: "string option") (url: string)
| PartPatch (hash: string) (files: "string list")
| PartSnapshot
| PartAgent
| PartStepStart
| PartStepFinish
| PartUnknown (type_name: string)

record Part =
  part_id :: string
  sessionID :: string
  body :: PartBody

record MessageError =
  error_name :: string
  error_message :: "string option"
  error_data_json :: string

record AssistantMessage =
  info_sessionID :: string
  info_error :: "MessageError option"

subsection \<open>Notifications and calls on the client connection\<close>

record PlanEntry =
  entry_content :: string
  priority :: PlanEntryPriority
  entry_status :: PlanEntryStatus

datatype SessionUpdate =
  agent_message_chunk ContentBlock
| agent_thought_chunk ContentBlock
| tool_call (toolCallId: string) (title: string) (status: ToolCallStatus) (kind: ToolKind)
    (call_content: "ToolCallContent list") (call_locations: "string list option")
| tool_call_update (toolCallId: string) (update_title: "string option")
    (status: ToolCallStatus) (call_content: "ToolCallContent list")
    (call_locations: "string list option")
| plan "PlanEntry list"

datatype SessionNotification =
  SessionNotification (sessionId: string) (update: SessionUpdate)

record PermissionOption =
  optionId :: string
  option_name :: string
  option_kind :: string

record PermissionRequest =
  request_sessionId :: string
  request_toolCallId :: string
  request_title :: string
  options :: "PermissionOption list"

text \<open>The outcome of a permission response: cancelled, or an option was selected.\<close>

datatype PermissionOutcome = OutcomeCancelled | OutcomeSelected string

text \<open>
  What the agent does on the client connection, in order:
  \<open>client.sessionUpdate\<close>, \<open>client.requestPermission\<close>, and the call of a session's
  \<open>messageUpdateResolver\<close>.
\<close>

datatype ClientCall =
  sessionUpdate SessionNotification
| requestPermission PermissionRequest
| messageUpdateResolved AssistantMessage

subsection \<open>Sessions, background terminals and the agent\<close>

text \<open>
  \<open>Session\<close>: the fields \<open>input\<close> and \<open>opencodeClient\<close> are handles and carry no state of
  the model; \<open>messageUpdateResolver\<close> is an optional callback, of which only the presence
  is recorded. \<open>permissionMode\<close> is a string in the source.
\<close>

record Session =
  cancelled_flag :: bool
  permissionMode :: string
  messageUpdateResolver :: bool
  lastSentTextByMessagePartId :: "string \<rightharpoonup> string"

datatype TerminalStatus = started | aborted | exited | killed | timedOut

record ExitStatus =
  exitCode :: "int option"
  signal :: "string option"

text \<open>The record that \<open>createTerminal\<close> stores.\<close>

record BackgroundTerminal =
  shellId :: string
  terminal_output :: string
  exitStatus :: "ExitStatus option"
  terminal_status :: TerminalStatus

text \<open>
  The two tables of the agent are plain objects in the source, indexed by the
  identifiers the upstream runtime issues and \<open>createTerminal\<close> generates. They are
  partial maps here: an identifier that is no key of the table has no entry. (A lookup
  of a name that every JavaScript object inherits, such as \<open>toString\<close>, finds a value
  in the source; such names are no identifiers of sessions or terminals and every
  statement below is about an entry that was stored.)
\<close>

record Agent =
  sessions :: "string \<rightharpoonup> Session"
  backgroundTerminals :: "string \<rightharpoonup> BackgroundTerminal"

datatype error =
  SessionNotFound
| InvalidMode
| TerminalNotFound string
| FailedToCreateTerminal
| FailedToCreateSession
| PromptError string
| UnexpectedEmptyResponse
| CommandThrew string

section \<open>The notification mapper\<close>

text \<open>\<open>files.join(", ")\<close>\<close>

fun join :: "string \<Rightarrow> string list \<Rightarrow> string" where
  "join sep [] = []"
| "join sep [x] = x"
| "join sep (x # y # ys) = x @ sep @ join sep (y # ys)"

text \<open>
  \<^verbatim>\<open>toAcpNotifications(messageInfo, messagePart, sessionId)\<close>. The first argument is
  \<open>messageInfo.error\<close> (absent for the placeholder \<open>{}\<close> that the event loop passes).
  \<open>x || y\<close> on strings takes \<open>y\<close> when \<open>x\<close> is absent or empty; on arrays only when
  \<open>x\<close> is absent.
\<close>

definition or_string :: "string option \<Rightarrow> string \<Rightarrow> string" where
  "or_string x y = (case x of None \<Rightarrow> y | Some s \<Rightarrow> if s = [] then y else s)"

definition or_empty :: "'a list option \<Rightarrow> 'a list" where
  "or_empty x = (case x of None \<Rightarrow> [] | Some xs \<Rightarrow> xs)"

definition toolUpdate :: "string \<Rightarrow> string \<Rightarrow> ToolState \<Rightarrow> ToolCallContent list option \<Rightarrow>
    string list option \<Rightarrow> SessionUpdate" where
  "toolUpdate callID' tool' state' content' locations' =
     (case state' of
        StatePending \<Rightarrow>
          tool_call callID' tool' Pending (mapToolKind tool') (or_empty content')
            (Some (or_empty locations'))
      | StateRunning title' input' \<Rightarrow>
          tool_call_update callID' (Some (or_string title' tool')) InProgress
            [Content (TextContent (''Tool input: '' @ input'))]
            (Some (or_empty locations'))
      | StateCompleted out \<Rightarrow>
          (case out of
             DiffShaped p old new j \<Rightarrow>
               if mapToolKind tool' = Edit
               then tool_call_update callID' None Completed [Diff p old new] None
               else tool_call_update callID' None Completed [Content (TextContent j)] None
           | OtherOutput j \<Rightarrow>
               tool_call_update callID' None Completed [Content (TextContent j)] None)
      | StateError e \<Rightarrow>
          tool_call_update callID' None Failed [Content (TextContent e)] None)"

definition partUpdate :: "PartBody \<Rightarrow> SessionUpdate option" where
  "partUpdate b =
     (case b of
        PartText t tm \<Rightarrow> Some (agent_message_chunk (TextContent t))
      | PartTool c tn st ct ls \<Rightarrow> Some (toolUpdate c tn st ct ls)
      | PartFile m fn u \<Rightarrow>
          Some (agent_message_chunk
            (if prefix ''image/'' m then ImageContent m u []
             else TextContent (''File: '' @ or_string fn u @ '' ('' @ m @ '')'')))
      | PartReasoning t \<Rightarrow>
          Some (plan [\<lparr>entry_content = t, priority = PriorityMedium,
                       entry_status = EntryPending\<rparr>])
      | PartPatch h fs \<Rightarrow>
          Some (tool_call (''patch-'' @ h) (''Applying patch to '' @ join '', '' fs)
            Completed Edit
            [Content (TextContent (''Patch applied with hash: '' @ h))] None)
      | PartSnapshot \<Rightarrow> None
      | PartAgent \<Rightarrow> None
      | PartStepStart \<Rightarrow> None
      | PartStepFinish \<Rightarrow> None
      | PartUnknown n \<Rightarrow> None)"

definition errorChunk :: "MessageError \<Rightarrow> SessionUpdate" where
  "errorChunk e =
     agent_message_chunk (TextContent
       (''Error from OpenCode: '' @ error_name e @ '' - '' @
        or_string (error_message e) (error_data_json e)))"

definition toAcpNotifications ::
    "MessageError option \<Rightarrow> Part \<Rightarrow> string \<Rightarrow> SessionNotification list" where
  "toAcpNotifications messageError messagePart sid =
     (case partUpdate (body messagePart) of
        None \<Rightarrow> []
      | Some u \<Rightarrow> [SessionNotification sid u])
     @ (case messageError of
          None \<Rightarrow> []
        | Some e \<Rightarrow> [SessionNotification sid (errorChunk e)])"

section \<open>The event loop of setupEventHandlers\<close>

subsection \<open>Delta calculation\<close>

text \<open>
  The text and the reasoning branch compute the delta with the same three statements:
  \<^verbatim>\<open>previousText = session.lastSentTextByMessagePartId.get(part.id) || ""\<close>,
  \<^verbatim>\<open>deltaText = currentText.substring(previousText.length)\<close>,
  \<^verbatim>\<open>session.lastSentTextByMessagePartId.set(part.id, currentText)\<close>.
\<close>

definition previousText :: "Session \<Rightarrow> string \<Rightarrow> string" where
  "previousText session pid =
     (case lastSentTextByMessagePartId session pid of None \<Rightarrow> [] | Some t \<Rightarrow> t)"

definition deltaText :: "Session \<Rightarrow> string \<Rightarrow> string \<Rightarrow> string" where
  "deltaText session pid currentText = drop (length (previousText session pid)) currentText"

definition setLastSent :: "Session \<Rightarrow> string \<Rightarrow> string \<Rightarrow> Session" where
  "setLastSent session pid currentText =
     session\<lparr>lastSentTextByMessagePartId :=
       (lastSentTextByMessagePartId session)(pid \<mapsto> currentText)\<rparr>"

definition putSession :: "Agent \<Rightarrow> string \<Rightarrow> Session \<Rightarrow> Agent" where
  "putSession a sid session = a\<lparr>sessions := (sessions a)(sid \<mapsto> session)\<rparr>"

text \<open>
  The chunk is sent only when \<open>deltaText.length > 0\<close>; \<open>chunk\<close> is
  \<open>agent_message_chunk\<close> for a text part and \<open>agent_thought_chunk\<close> for a reasoning part.
\<close>

definition sendDelta :: "(ContentBlock \<Rightarrow> SessionUpdate) \<Rightarrow> Agent \<Rightarrow> string \<Rightarrow> Session \<Rightarrow>
    string \<Rightarrow> string \<Rightarrow> ClientCall list \<times> Agent" where
  "sendDelta chunk a sid session pid currentText =
     (let d = deltaText session pid currentText;
          a' = putSession a sid (setLastSent session pid currentText)
      in (if length d > 0
          then [sessionUpdate (SessionNotification sid (chunk (TextContent d)))]
          else [],
          a'))"

subsection \<open>Tool permissions\<close>

definition permissionOptions :: "PermissionOption list" where
  "permissionOptions =
     [\<lparr>optionId = ''allow_once'', option_name = ''Allow Once'', option_kind = ''allow_once''\<rparr>,
      \<lparr>optionId = ''reject_once'', option_name = ''Deny'', option_kind = ''reject_once''\<rparr>]"

definition pendingCall :: "string \<Rightarrow> string \<Rightarrow> string \<Rightarrow> ToolCallContent list option \<Rightarrow>
    ClientCall" where
  "pendingCall sid callID' tool' content' =
     sessionUpdate (SessionNotification sid
       (tool_call callID' tool' Pending (mapToolKind tool') (or_empty content') None))"

definition planBlocked :: "string \<Rightarrow> string \<Rightarrow> ClientCall" where
  "planBlocked sid callID' =
     sessionUpdate (SessionNotification sid
       (tool_call_update callID' None Failed
          [Content (TextContent ''Tool execution blocked in Plan Mode.'')] None))"

definition permissionDenied :: "string \<Rightarrow> string \<Rightarrow> string \<Rightarrow> ClientCall" where
  "permissionDenied sid callID' tool' =
     sessionUpdate (SessionNotification sid
       (tool_call_update callID' None Failed
          [Content (TextContent
             (''Permission for tool '' @ [CHR 0x27] @ tool' @ [CHR 0x27] @ '' denied.''))]
          None))"

definition permissionRequest :: "string \<Rightarrow> string \<Rightarrow> string \<Rightarrow> ClientCall" where
  "permissionRequest sid callID' tool' =
     requestPermission
       \<lparr>request_sessionId = sid, request_toolCallId = callID',
        request_title = ''Allow agent to run tool: '' @ tool' @ ''?'',
        options = permissionOptions\<rparr>"

text \<open>
  The block \<^verbatim>\<open>if (part.type === "tool" && part.state.status === "pending") { ... }\<close>.
  \<open>response\<close> is the outcome the client gives if it is asked. The result is the calls
  made, in order, and whether the block ended with \<open>continue\<close>. The variable
  \<open>permissionGranted\<close> is set only in the first branch.
\<close>

definition toolPermission :: "Session \<Rightarrow> string \<Rightarrow> string \<Rightarrow> string \<Rightarrow>
    ToolCallContent list option \<Rightarrow> PermissionOutcome \<Rightarrow> ClientCall list \<times> bool" where
  "toolPermission session sid callID' tool' content' response =
     (let (calls, permissionGranted, continue) =
        (if permissionMode session = ''bypassPermissions'' \<or>
            permissionMode session = ''acceptEdits''
         then ([], True, False)
         else if permissionMode session = ''plan''
         then ([planBlocked sid callID'], False, True)
         else
           (let asked = [pendingCall sid callID' tool' content',
                         permissionRequest sid callID' tool']
            in if response \<noteq> OutcomeSelected ''allow_once''
               then (asked @ [permissionDenied sid callID' tool'], False, True)
               else (asked, False, False)))
      in if continue then (calls, True)
         else if permissionGranted \<and> permissionMode session \<noteq> ''default''
         then (calls @ [pendingCall sid callID' tool' content'], False)
         else (calls, False))"

subsection \<open>One event\<close>

text \<open>
  The body of the loop for a \<open>message.part.updated\<close> event: the echo filter, the check of
  \<open>sessionID\<close> (an empty string is falsy), the lookup of the session, the text and the
  reasoning branch (each ends with \<open>continue\<close>), the permission block, and the
  notifications of \<open>toAcpNotifications\<close> for what was not skipped.
\<close>

definition handlePartUpdated :: "Agent \<Rightarrow> Part \<Rightarrow> PermissionOutcome \<Rightarrow>
    ClientCall list \<times> Agent" where
  "handlePartUpdated a part response =
     (let sid = sessionID part in
      if (case body part of PartText t tm \<Rightarrow> tm = None | _ \<Rightarrow> False) then ([], a)
      else if sid = [] then ([], a)
      else
        (case sessions a sid of
           None \<Rightarrow> ([], a)
         | Some session \<Rightarrow>
             (case body part of
                PartText currentText tm \<Rightarrow>
                  sendDelta agent_message_chunk a sid session (part_id part) currentText
              | PartReasoning currentText \<Rightarrow>
                  sendDelta agent_thought_chunk a sid session (part_id part) currentText
              | _ \<Rightarrow>
                  (let (calls, continue) =
                     (case body part of
                        PartTool c tn StatePending ct ls \<Rightarrow>
                          toolPermission session sid c tn ct response
                      | _ \<Rightarrow> ([], False))
                   in if continue then (calls, a)
                      else (calls @ map sessionUpdate (toAcpNotifications None part sid),
                            a)))))"





section \<open>Requests of the client\<close>

subsection \<open>newSession and setSessionMode\<close>

text \<open>The session record that \<open>newSession\<close> and \<open>loadSession\<close> store.\<close>

definition initialSession :: Session where
  "initialSession =
     \<lparr>cancelled_flag = False, permissionMode = ''default'', messageUpdateResolver = False,
      lastSentTextByMessagePartId = Map.empty\<rparr>"

text \<open>
  \<open>newSession\<close>: \<open>created\<close> is the identifier returned by the upstream \<open>session.create\<close>,
  or \<open>None\<close> when that call gives an error or no data.
\<close>

definition newSession :: "Agent \<Rightarrow> string option \<Rightarrow> (error + string) \<times> Agent" where
  "newSession a created =
     (case created of
        None \<Rightarrow> (Inl FailedToCreateSession, a)
      | Some sid \<Rightarrow> (Inr sid, putSession a sid initialSession))"

record SetSessionModeRequest =
  mode_sessionId :: string
  modeId :: string

definition setSessionMode :: "Agent \<Rightarrow> SetSessionModeRequest \<Rightarrow> (error + unit) \<times> Agent" where
  "setSessionMode a params =
     (case sessions a (mode_sessionId params) of
        None \<Rightarrow> (Inl SessionNotFound, a)
      | Some session \<Rightarrow>
          if modeId params = ''default'' \<or> modeId params = ''acceptEdits'' \<or>
             modeId params = ''plan'' \<or> modeId params = ''bypassPermissions''
          then (Inr (),
                putSession a (mode_sessionId params)
                  (session\<lparr>permissionMode := modeId params\<rparr>))
          else (Inl InvalidMode, a))"

subsection \<open>prompt\<close>

text \<open>
  The blocks of a prompt: only a leading text block is inspected by \<open>prompt\<close> itself
  (the conversion of the blocks shapes the body of the upstream call and nothing else).
\<close>

datatype PromptBlock = PromptTextBlock string | PromptOtherBlock

record PromptRequest =
  prompt_sessionId :: string
  prompt_blocks :: "PromptBlock list"

text \<open>
  \<^verbatim>\<open>firstPart && firstPart.type === 'text' && firstPart.text.startsWith('/')\<close>
\<close>

definition isSlashCommand :: "PromptBlock list \<Rightarrow> bool" where
  "isSlashCommand blocks =
     (case blocks of
        PromptTextBlock t # rest \<Rightarrow> prefix ''/'' t
      | _ \<Rightarrow> False)"

text \<open>
  What \<open>handleCommand\<close> gives back to \<open>prompt\<close>: it returns a boolean or throws. What
  the upstream \<open>session.prompt\<close> gives back: the pair of \<open>data\<close> and \<open>error\<close>, where
  \<open>data.info\<close> is the final assistant message.
\<close>

datatype CommandResult = CommandReturned bool | CommandFailed string

record PromptResult =
  promptData :: "AssistantMessage option"
  promptError :: "string option"

definition stopReasonOf :: "AssistantMessage \<Rightarrow> StopReason" where
  "stopReasonOf info =
     (case info_error info of
        None \<Rightarrow> end_turn
      | Some e \<Rightarrow> if error_name e = ''MessageAbortedError'' then cancelled else refusal)"

definition promptUpstream :: "PromptResult \<Rightarrow> error + StopReason" where
  "promptUpstream r =
     (case promptError r of
        Some e \<Rightarrow> Inl (PromptError e)
      | None \<Rightarrow>
          (case promptData r of
             None \<Rightarrow> Inl UnexpectedEmptyResponse
           | Some info \<Rightarrow> Inr (stopReasonOf info)))"

definition prompt :: "Agent \<Rightarrow> PromptRequest \<Rightarrow> CommandResult \<Rightarrow> PromptResult \<Rightarrow>
    (error + StopReason) \<times> Agent" where
  "prompt a params command upstream =
     (case sessions a (prompt_sessionId params) of
        None \<Rightarrow> (Inl SessionNotFound, a)
      | Some session \<Rightarrow>
          (let a' = putSession a (prompt_sessionId params) (session\<lparr>cancelled_flag := False\<rparr>)
           in if isSlashCommand (prompt_blocks params)
              then (case command of
                      CommandFailed e \<Rightarrow> (Inl (CommandThrew e), a')
                    | CommandReturned handled \<Rightarrow>
                        if handled then (Inr end_turn, a')
                        else (promptUpstream upstream, a'))
              else (promptUpstream upstream, a')))"

section \<open>Background terminals\<close>

text \<open>
  \<open>createTerminal\<close>: \<open>terminalId\<close> is the identifier the method generates from the clock
  and a random number; the result of the upstream \<open>session.shell\<close> is its \<open>error\<close> and
  its \<open>data\<close> (absent, without \<open>id\<close>, or with \<open>id\<close>; an empty \<open>id\<close> is falsy).
\<close>

record ShellResult =
  shellData :: "string option option"
  shellError :: "string option"

definition createTerminal :: "Agent \<Rightarrow> string \<Rightarrow> ShellResult \<Rightarrow> (error + string) \<times> Agent" where
  "createTerminal a terminalId shell =
     (case (shellError shell, shellData shell) of
        (None, Some (Some sid)) \<Rightarrow>
          if sid = [] then (Inl FailedToCreateTerminal, a)
          else (Inr terminalId,
                a\<lparr>backgroundTerminals := (backgroundTerminals a)(terminalId \<mapsto>
                    \<lparr>shellId = sid, terminal_output = [], exitStatus = None,
                     terminal_status = started\<rparr>)\<rparr>)
      | _ \<Rightarrow> (Inl FailedToCreateTerminal, a))"

record TerminalOutputResponse =
  response_output :: string
  truncated :: bool
  response_exitStatus :: "ExitStatus option"

definition terminalOutput :: "Agent \<Rightarrow> string \<Rightarrow> (error + TerminalOutputResponse) \<times> Agent" where
  "terminalOutput a terminalId =
     (case backgroundTerminals a terminalId of
        None \<Rightarrow> (Inl (TerminalNotFound terminalId), a)
      | Some terminal \<Rightarrow>
          (Inr \<lparr>response_output = terminal_output terminal, truncated = False,
                response_exitStatus = exitStatus terminal\<rparr>, a))"

text \<open>
  \<open>waitForTerminalExit\<close> polls \<open>terminal.status\<close> until it is not \<open>started\<close>. No statement
  of the loop changes the terminal, so within one call the loop returns exactly when the
  status is not \<open>started\<close> at its start; \<open>None\<close> is the call that does not return.
  (Between two polls the source lets other requests run, so a kill that arrives during
  the wait ends it; here that kill is a request of its own, and the statements below
  use only that the wait leaves the table as it is.)
  \<^verbatim>\<open>terminal.exitStatus?.exitCode ?? null\<close> is \<open>None\<close> when there is no exit status.
\<close>

partial_function (option) pollUntilExit :: "BackgroundTerminal \<Rightarrow> ExitStatus option" where
  "pollUntilExit terminal =
     (if terminal_status terminal = started then pollUntilExit terminal
      else Some \<lparr>exitCode = (case exitStatus terminal of None \<Rightarrow> None | Some s \<Rightarrow> exitCode s),
                 signal = (case exitStatus terminal of None \<Rightarrow> None | Some s \<Rightarrow> signal s)\<rparr>)"

definition waitForTerminalExit :: "Agent \<Rightarrow> string \<Rightarrow> (error + ExitStatus) option \<times> Agent" where
  "waitForTerminalExit a terminalId =
     (case backgroundTerminals a terminalId of
        None \<Rightarrow> (Some (Inl (TerminalNotFound terminalId)), a)
      | Some terminal \<Rightarrow> (map_option Inr (pollUntilExit terminal), a))"

text \<open>\<^verbatim>\<open>"terminal/kill"\<close>: \<open>terminal.status = "killed"\<close>, whatever the status was.\<close>

definition terminal_kill :: "Agent \<Rightarrow> string \<Rightarrow> (error + unit) \<times> Agent" where
  "terminal_kill a terminalId =
     (case backgroundTerminals a terminalId of
        None \<Rightarrow> (Inl (TerminalNotFound terminalId), a)
      | Some terminal \<Rightarrow>
          (Inr (),
           a\<lparr>backgroundTerminals := (backgroundTerminals a)(terminalId \<mapsto>
               terminal\<lparr>terminal_status := killed\<rparr>)\<rparr>))"

definition releaseTerminal :: "Agent \<Rightarrow> string \<Rightarrow> (error + unit) \<times> Agent" where
  "releaseTerminal a terminalId =
     (case backgroundTerminals a terminalId of
        None \<Rightarrow> (Inl (TerminalNotFound terminalId), a)
      | Some terminal \<Rightarrow>
          (Inr (), a\<lparr>backgroundTerminals := (backgroundTerminals a)(terminalId := None)\<rparr>))"

text \<open>The requests that touch the table of terminals, and the state after one of them.\<close>

datatype TerminalRequest =
  CreateTerminal string ShellResult
| TerminalOutput string
| WaitForTerminalExit string
| TerminalKill string
| ReleaseTerminal string

fun terminalStep :: "Agent \<Rightarrow> TerminalRequest \<Rightarrow> Agent" where
  "terminalStep a (CreateTerminal terminalId shell) = snd (createTerminal a terminalId shell)"
| "terminalStep a (TerminalOutput terminalId) = snd (terminalOutput a terminalId)"
| "terminalStep a (WaitForTerminalExit terminalId) = snd (waitForTerminalExit a terminalId)"
| "terminalStep a (TerminalKill terminalId) = snd (terminal_kill a terminalId)"
| "terminalStep a (ReleaseTerminal terminalId) = snd (releaseTerminal a terminalId)"

fun terminalRun :: "Agent \<Rightarrow> TerminalRequest list \<Rightarrow> Agent" where
  "terminalRun a [] = a"
| "terminalRun a (r # rs) = terminalRun (terminalStep a r) rs"

text \<open>The agent the constructor builds: no session, no terminal.\<close>

definition newAgent :: Agent where
  "newAgent = \<lparr>sessions = Map.empty, backgroundTerminals = Map.empty\<rparr>"

text \<open>The identifier a request stores a new terminal under, if it is a create request.\<close>

fun createdId :: "TerminalRequest \<Rightarrow> string option" where
  "createdId (CreateTerminal terminalId shell) = Some terminalId"
| "createdId _ = None"

section \<open>Inputs of the statements\<close>


section \<open>Tool kind inference\<close>

text \<open>
  Claim C7. \<open>mapToolKind\<close> is the first-matching-prefix lookup in the table
  read, write/edit/apply/insert, execute, search/list, browser, update/ask/new_task,
  switch, with \<open>Other\<close> for every other name; and read_file is Read, write_file is Edit,
  execute_bash is Execute, search_code is Search, unknown_tool is Other.
\<close>

theorem mapToolKind_first_prefix:
  "mapToolKind toolName = kind_by_first_prefix toolName
   \<and> mapToolKind ''read_file'' = Read
   \<and> mapToolKind ''write_file'' = Edit
   \<and> mapToolKind ''execute_bash'' = Execute
   \<and> mapToolKind ''search_code'' = Search
   \<and> mapToolKind ''unknown_tool'' = Other"
  by (simp add: mapToolKind_def kind_by_first_prefix_def kind_prefix_table_def)

section \<open>Tool permissions\<close>

text \<open>
  Claim C1. In \<open>bypassPermissions\<close> mode (and likewise \<open>acceptEdits\<close>) a tool part entering
  \<open>pending\<close> should give exactly one \<open>tool_call\<close> notification with status Pending for
  its \<open>callID\<close> and no permission request. The source makes no permission request, but
  after the notification of the permission block the handler goes on to
  \<open>toAcpNotifications\<close>, which maps the same pending part to a second \<open>tool_call\<close>
  notification with status Pending: for the pending call \<open>c1\<close> of the tool \<open>read_file\<close> in
  a session in \<open>bypassPermissions\<close> mode the trace holds two of them.
\<close>

theorem bypass_pending_notified_twice:
  "fst (handlePartUpdated
          (putSession newAgent ''s1'' (initialSession\<lparr>permissionMode := ''bypassPermissions''\<rparr>))
          \<lparr>part_id = ''p1'', sessionID = ''s1'',
           body = PartTool ''c1'' ''read_file'' StatePending None None\<rparr>
          OutcomeCancelled)
   = [sessionUpdate (SessionNotification ''s1''
        (tool_call ''c1'' ''read_file'' Pending Read [] None)),
      sessionUpdate (SessionNotification ''s1''
        (tool_call ''c1'' ''read_file'' Pending Read [] (Some [])))]"
  by (simp add: handlePartUpdated_def putSession_def newAgent_def initialSession_def
      toolPermission_def pendingCall_def toAcpNotifications_def partUpdate_def toolUpdate_def
      mapToolKind_def or_empty_def Let_def)

text \<open>
  Claim C2. In \<open>default\<close> mode, while a tool part entering \<open>pending\<close> is handled: when the
  outcome of the permission response is not a selected \<open>allow_once\<close>, the calls on the
  client are the Pending \<open>tool_call\<close>, the permission request and a \<open>tool_call_update\<close>
  with status Failed for the \<open>callID\<close>, and nothing after it; when the outcome is a
  selected \<open>allow_once\<close>, the permission block makes no call after the permission
  request (what follows in the trace of the handler is the output of
  \<open>toAcpNotifications\<close>).
\<close>

theorem default_mode_permission_outcome:
  assumes "sessions a (sessionID part) = Some session"
    and "sessionID part \<noteq> []"
    and "permissionMode session = ''default''"
    and "body part = PartTool c tn StatePending ct ls"
  shows "(response \<noteq> OutcomeSelected ''allow_once'' \<longrightarrow>
           handlePartUpdated a part response =
             ([pendingCall (sessionID part) c tn ct,
               permissionRequest (sessionID part) c tn,
               sessionUpdate (SessionNotification (sessionID part)
                 (tool_call_update c None Failed
                    [Content (TextContent
                       (''Permission for tool '' @ [CHR 0x27] @ tn @ [CHR 0x27] @ '' denied.''))]
                    None))], a))
       \<and> (response = OutcomeSelected ''allow_once'' \<longrightarrow>
           toolPermission session (sessionID part) c tn ct response =
             ([pendingCall (sessionID part) c tn ct,
               permissionRequest (sessionID part) c tn], False)
           \<and> handlePartUpdated a part response =
             ([pendingCall (sessionID part) c tn ct,
               permissionRequest (sessionID part) c tn]
              @ map sessionUpdate (toAcpNotifications None part (sessionID part)), a))"
  using assms
  by (simp add: handlePartUpdated_def toolPermission_def permissionDenied_def Let_def)

theorem default_mode_permission_outcome_witness:
  "handlePartUpdated (putSession newAgent ''s1'' initialSession)
     \<lparr>part_id = ''p1'', sessionID = ''s1'',
      body = PartTool ''c1'' ''write_file'' StatePending None None\<rparr>
     (OutcomeSelected ''reject_once'')
   = ([sessionUpdate (SessionNotification ''s1''
         (tool_call ''c1'' ''write_file'' Pending Edit [] None)),
       requestPermission
         \<lparr>request_sessionId = ''s1'', request_toolCallId = ''c1'',
          request_title = ''Allow agent to run tool: write_file?'',
          options = permissionOptions\<rparr>,
       sessionUpdate (SessionNotification ''s1''
         (tool_call_update ''c1'' None Failed
            [Content (TextContent
               (''Permission for tool '' @ [CHR 0x27] @ ''write_file'' @ [CHR 0x27] @ '' denied.''))]
            None))],
      putSession newAgent ''s1'' initialSession)
   \<and> toolPermission initialSession ''s1'' ''c1'' ''write_file'' None (OutcomeSelected ''allow_once'')
   = ([sessionUpdate (SessionNotification ''s1''
         (tool_call ''c1'' ''write_file'' Pending Edit [] None)),
       requestPermission
         \<lparr>request_sessionId = ''s1'', request_toolCallId = ''c1'',
          request_title = ''Allow agent to run tool: write_file?'',
          options = permissionOptions\<rparr>], False)"
proof -
  let ?a = "putSession newAgent ''s1'' initialSession"
  let ?p = "\<lparr>part_id = ''p1'', sessionID = ''s1'',
      body = PartTool ''c1'' ''write_file'' StatePending None None\<rparr>"
  have h1: "sessions ?a (sessionID ?p) = Some initialSession"
    by (simp add: putSession_def)
  have h2: "sessionID ?p \<noteq> []" by simp
  have h3: "permissionMode initialSession = ''default''"
    by (simp add: initialSession_def)
  have h4: "body ?p = PartTool ''c1'' ''write_file'' StatePending None None" by simp
  show ?thesis
    using default_mode_permission_outcome[OF h1 h2 h3 h4, of "OutcomeSelected ''reject_once''"]
      default_mode_permission_outcome[OF h1 h2 h3 h4, of "OutcomeSelected ''allow_once''"]
    by (simp add: pendingCall_def permissionRequest_def mapToolKind_def or_empty_def)
qed

text \<open>
  Claim C3. In \<open>plan\<close> mode, handling a tool part entering \<open>pending\<close> makes exactly one
  call on the client: a \<open>tool_call_update\<close> with status Failed for the \<open>callID\<close>, with the
  text "Tool execution blocked in Plan Mode."; no permission is requested, nothing else
  is sent, and the state is unchanged.
\<close>

theorem plan_mode_blocks_pending_tool:
  assumes "sessions a (sessionID part) = Some session"
    and "sessionID part \<noteq> []"
    and "permissionMode session = ''plan''"
    and "body part = PartTool c tn StatePending ct ls"
  shows "handlePartUpdated a part response =
     ([sessionUpdate (SessionNotification (sessionID part)
         (tool_call_update c None Failed
            [Content (TextContent ''Tool execution blocked in Plan Mode.'')] None))], a)"
  using assms by (simp add: handlePartUpdated_def toolPermission_def planBlocked_def Let_def)

theorem plan_mode_blocks_pending_tool_witness:
  "handlePartUpdated (putSession newAgent ''s1'' (initialSession\<lparr>permissionMode := ''plan''\<rparr>))
     \<lparr>part_id = ''p1'', sessionID = ''s1'',
      body = PartTool ''c1'' ''execute_bash'' StatePending None None\<rparr>
     (OutcomeSelected ''allow_once'')
   = ([sessionUpdate (SessionNotification ''s1''
         (tool_call_update ''c1'' None Failed
            [Content (TextContent ''Tool execution blocked in Plan Mode.'')] None))],
      putSession newAgent ''s1'' (initialSession\<lparr>permissionMode := ''plan''\<rparr>))"
proof -
  let ?s = "initialSession\<lparr>permissionMode := ''plan''\<rparr>"
  let ?p = "\<lparr>part_id = ''p1'', sessionID = ''s1'',
      body = PartTool ''c1'' ''execute_bash'' StatePending None None\<rparr>"
  have h1: "sessions (putSession newAgent ''s1'' ?s) (sessionID ?p) = Some ?s"
    by (simp add: putSession_def)
  have h2: "sessionID ?p \<noteq> []" by simp
  have h3: "permissionMode ?s = ''plan''" by simp
  have h4: "body ?p = PartTool ''c1'' ''execute_bash'' StatePending None None" by simp
  show ?thesis
    using plan_mode_blocks_pending_tool[OF h1 h2 h3 h4, of "OutcomeSelected ''allow_once''"]
    by simp
qed

section \<open>Text deltas and the echo filter\<close>








text \<open>
  Claim C5. When an update of a text part (with a timestamp) or of a reasoning part of
  an existing session has a delta of length zero, handling it sends nothing to the
  client, and the text of the update is stored as the last text of the part: the state
  after it differs from the state before only in that entry, and reading the entry of
  the part back gives the text of the update.
\<close>

theorem empty_delta_not_forwarded:
  assumes "sessions a (sessionID part) = Some session"
    and "sessionID part \<noteq> []"
    and "body part = PartText currentText (Some tm) \<or> body part = PartReasoning currentText"
    and "length (deltaText session (part_id part) currentText) = 0"
  shows "handlePartUpdated a part response =
     ([], a\<lparr>sessions := (sessions a)(sessionID part \<mapsto>
            session\<lparr>lastSentTextByMessagePartId :=
              (lastSentTextByMessagePartId session)(part_id part \<mapsto> currentText)\<rparr>)\<rparr>)
   \<and> map_option (\<lambda>s. lastSentTextByMessagePartId s (part_id part))
        (sessions (snd (handlePartUpdated a part response)) (sessionID part)) =
      Some (Some currentText)"
  using assms
  by (auto simp add: handlePartUpdated_def sendDelta_def putSession_def setLastSent_def Let_def)

theorem empty_delta_not_forwarded_witness:
  "length (deltaText
      (initialSession\<lparr>lastSentTextByMessagePartId := [''p1'' \<mapsto> ''Hello'']\<rparr>) ''p1'' ''Hi'') = 0
   \<and> fst (handlePartUpdated
        (newAgent\<lparr>sessions := [''s1'' \<mapsto>
           initialSession\<lparr>lastSentTextByMessagePartId := [''p1'' \<mapsto> ''Hello'']\<rparr>]\<rparr>)
        \<lparr>part_id = ''p1'', sessionID = ''s1'',
         body = PartText ''Hi'' (Some (PartTime 0 None))\<rparr> OutcomeCancelled) = []
   \<and> map_option (\<lambda>s. lastSentTextByMessagePartId s ''p1'')
        (sessions (snd (handlePartUpdated
           (newAgent\<lparr>sessions := [''s1'' \<mapsto>
              initialSession\<lparr>lastSentTextByMessagePartId := [''p1'' \<mapsto> ''Hello'']\<rparr>]\<rparr>)
           \<lparr>part_id = ''p1'', sessionID = ''s1'',
            body = PartText ''Hi'' (Some (PartTime 0 None))\<rparr> OutcomeCancelled)) ''s1'') =
      Some (Some ''Hi'')
   \<and> fst (handlePartUpdated
        (newAgent\<lparr>sessions := [''s1'' \<mapsto>
           initialSession\<lparr>lastSentTextByMessagePartId := [''p1'' \<mapsto> ''Hello'']\<rparr>]\<rparr>)
        \<lparr>part_id = ''p1'', sessionID = ''s1'', body = PartReasoning ''Hello''\<rparr>
        OutcomeCancelled) = []
   \<and> map_option (\<lambda>s. lastSentTextByMessagePartId s ''p1'')
        (sessions (snd (handlePartUpdated
           (newAgent\<lparr>sessions := [''s1'' \<mapsto>
              initialSession\<lparr>lastSentTextByMessagePartId := [''p1'' \<mapsto> ''Hello'']\<rparr>]\<rparr>)
           \<lparr>part_id = ''p1'', sessionID = ''s1'', body = PartReasoning ''Hello''\<rparr>
           OutcomeCancelled)) ''s1'') =
      Some (Some ''Hello'')"
proof -
  let ?s = "initialSession\<lparr>lastSentTextByMessagePartId := [''p1'' \<mapsto> ''Hello'']\<rparr>"
  let ?a = "newAgent\<lparr>sessions := [''s1'' \<mapsto> ?s]\<rparr>"
  let ?p = "\<lparr>part_id = ''p1'', sessionID = ''s1'',
         body = PartText ''Hi'' (Some (PartTime 0 None))\<rparr>"
  let ?q = "\<lparr>part_id = ''p1'', sessionID = ''s1'', body = PartReasoning ''Hello''\<rparr>"
  have d: "length (deltaText ?s ''p1'' ''Hi'') = 0"
    by (simp add: deltaText_def previousText_def)
  have d': "length (deltaText ?s ''p1'' ''Hello'') = 0"
    by (simp add: deltaText_def previousText_def)
  have p1: "sessions ?a (sessionID ?p) = Some ?s" by simp
  have p2: "sessionID ?p \<noteq> []" by simp
  have p3: "body ?p = PartText ''Hi'' (Some (PartTime 0 None)) \<or>
      body ?p = PartReasoning ''Hi''" by simp
  have p4: "length (deltaText ?s (part_id ?p) ''Hi'') = 0" using d by simp
  have q1: "sessions ?a (sessionID ?q) = Some ?s" by simp
  have q2: "sessionID ?q \<noteq> []" by simp
  have q3: "body ?q = PartText ''Hello'' (Some (PartTime 0 None)) \<or>
      body ?q = PartReasoning ''Hello''" by simp
  have q4: "length (deltaText ?s (part_id ?q) ''Hello'') = 0" using d' by simp
  show ?thesis
    using d empty_delta_not_forwarded[OF p1 p2 p3 p4, of OutcomeCancelled] empty_delta_not_forwarded[OF q1 q2 q3 q4, of OutcomeCancelled]
    by simp
qed

text \<open>
  Claim C6. An update of a text part that has no timestamp is dropped whatever its text
  and whatever the state: handling it sends nothing and leaves the whole state, the
  stored texts included, as it was.
\<close>

theorem text_without_time_dropped:
  assumes "body part = PartText t None"
  shows "handlePartUpdated a part response = ([], a)"
  using assms by (simp add: handlePartUpdated_def Let_def)

theorem text_without_time_dropped_witness:
  "handlePartUpdated (putSession newAgent ''s1'' initialSession)
     \<lparr>part_id = ''p1'', sessionID = ''s1'', body = PartText ''Hello'' None\<rparr> OutcomeCancelled
   = ([], putSession newAgent ''s1'' initialSession)"
proof -
  have h: "body \<lparr>part_id = ''p1'', sessionID = ''s1'', body = PartText ''Hello'' None\<rparr> =
      PartText ''Hello'' None" by simp
  show ?thesis
    using text_without_time_dropped[OF h, of "putSession newAgent ''s1'' initialSession"
        OutcomeCancelled] .
qed

section \<open>Background terminals: the status of a terminal\<close>

lemma terminalStep_status:
  assumes "backgroundTerminals a tid = Some terminal"
    and "createdId request \<noteq> Some tid"
  shows "(case backgroundTerminals (terminalStep a request) tid of
            None \<Rightarrow> request = ReleaseTerminal tid
          | Some terminal' \<Rightarrow>
              terminal_status terminal' =
                (if request = TerminalKill tid then killed else terminal_status terminal))"
proof (cases request)
  case (CreateTerminal i shell)
  then have "i \<noteq> tid" using assms(2) by simp
  then show ?thesis
    using assms(1) CreateTerminal
    by (simp add: createTerminal_def split: option.splits)
next
  case (TerminalOutput i)
  then show ?thesis using assms(1) by (simp add: terminalOutput_def split: option.splits)
next
  case (WaitForTerminalExit i)
  then show ?thesis using assms(1) by (simp add: waitForTerminalExit_def split: option.splits)
next
  case (TerminalKill i)
  then show ?thesis using assms(1) by (simp add: terminal_kill_def split: option.splits)
next
  case (ReleaseTerminal i)
  then show ?thesis using assms(1) by (simp add: releaseTerminal_def split: option.splits)
qed

text \<open>No request stores a status other than \<open>started\<close> and \<open>killed\<close>.\<close>

lemma terminalStep_statuses:
  assumes "\<And>tid terminal. backgroundTerminals a tid = Some terminal \<Longrightarrow>
             terminal_status terminal = started \<or> terminal_status terminal = killed"
    and "backgroundTerminals (terminalStep a request) tid' = Some terminal'"
  shows "terminal_status terminal' = started \<or> terminal_status terminal' = killed"
proof (cases request)
  case (CreateTerminal i shell)
  then show ?thesis
    using assms
    by (auto simp: createTerminal_def split: option.splits if_splits)
next
  case (TerminalOutput i)
  then show ?thesis using assms by (auto simp: terminalOutput_def split: option.splits)
next
  case (WaitForTerminalExit i)
  then show ?thesis using assms by (auto simp: waitForTerminalExit_def split: option.splits)
next
  case (TerminalKill i)
  then show ?thesis
    using assms by (auto simp: terminal_kill_def split: option.splits if_splits)
next
  case (ReleaseTerminal i)
  then show ?thesis
    using assms by (auto simp: releaseTerminal_def split: option.splits if_splits)
qed

lemma terminalRun_statuses:
  assumes "\<And>tid terminal. backgroundTerminals a tid = Some terminal \<Longrightarrow>
             terminal_status terminal = started \<or> terminal_status terminal = killed"
    and "backgroundTerminals (terminalRun a rs) tid' = Some terminal'"
  shows "terminal_status terminal' = started \<or> terminal_status terminal' = killed"
  using assms
proof (induction rs arbitrary: a)
  case Nil
  then show ?case by simp
next
  case (Cons r rs)
  have "\<And>tid terminal. backgroundTerminals (terminalStep a r) tid = Some terminal \<Longrightarrow>
          terminal_status terminal = started \<or> terminal_status terminal = killed"
    using terminalStep_statuses[of a r] Cons.prems(1) by blast
  then show ?case
    using Cons.IH[of "terminalStep a r"] Cons.prems(2) by simp
qed

lemma terminalStep_absent:
  assumes "backgroundTerminals a tid = None" and "createdId request \<noteq> Some tid"
  shows "backgroundTerminals (terminalStep a request) tid = None"
proof (cases request)
  case (CreateTerminal i shell)
  then have "i \<noteq> tid" using assms(2) by simp
  then show ?thesis
    using assms(1) CreateTerminal by (simp add: createTerminal_def split: option.splits)
next
  case (TerminalOutput i)
  then show ?thesis using assms(1) by (simp add: terminalOutput_def split: option.splits)
next
  case (WaitForTerminalExit i)
  then show ?thesis using assms(1) by (simp add: waitForTerminalExit_def split: option.splits)
next
  case (TerminalKill i)
  then show ?thesis using assms(1) by (auto simp: terminal_kill_def split: option.splits)
next
  case (ReleaseTerminal i)
  then show ?thesis using assms(1) by (auto simp: releaseTerminal_def split: option.splits)
qed

lemma terminalRun_absent:
  assumes "backgroundTerminals a tid = None" and "\<forall>r \<in> set rs. createdId r \<noteq> Some tid"
  shows "backgroundTerminals (terminalRun a rs) tid = None"
  using assms
  by (induction rs arbitrary: a) (simp_all add: terminalStep_absent)

text \<open>A killed terminal stays killed until it is released, and a released one stays away.\<close>

lemma terminalRun_killed:
  assumes "backgroundTerminals a tid = Some terminal"
    and "terminal_status terminal = killed"
    and "\<forall>r \<in> set rs. createdId r \<noteq> Some tid"
  shows "(case backgroundTerminals (terminalRun a rs) tid of
            None \<Rightarrow> ReleaseTerminal tid \<in> set rs
          | Some terminal' \<Rightarrow> terminal_status terminal' = killed)"
  using assms
proof (induction rs arbitrary: a terminal)
  case Nil
  then show ?case by simp
next
  case (Cons r rs)
  have r: "createdId r \<noteq> Some tid" and rest: "\<forall>r \<in> set rs. createdId r \<noteq> Some tid"
    using Cons.prems(3) by simp_all
  note step = terminalStep_status[OF Cons.prems(1) r]
  show ?case
  proof (cases "backgroundTerminals (terminalStep a r) tid")
    case None
    then have "r = ReleaseTerminal tid" using step by simp
    moreover have "backgroundTerminals (terminalRun (terminalStep a r) rs) tid = None"
      using terminalRun_absent[OF None rest] .
    ultimately show ?thesis by simp
  next
    case (Some t')
    then have "terminal_status t' = killed"
      using step Cons.prems(2) by (simp split: if_splits)
    then show ?thesis
      using Cons.IH[OF Some _ rest] by (auto split: option.splits)
  qed
qed

text \<open>
  Claim C8. The table of terminals is changed by the requests of the tracker only, and
  of these only \<open>createTerminal\<close> (which stores \<open>started\<close>) and \<open>terminal/kill\<close> (which
  stores \<open>killed\<close>) assign a status. So in every table reached from the new agent by
  requests, once the status of a terminal has left \<open>started\<close>, no later sequence of
  requests changes it: after the sequence the record has the same status, unless the
  terminal was released, which discards the record. A create request that generates the
  identifier of the terminal anew stores a new terminal under it and is not among the
  later requests. In particular a kill request on such a terminal leaves its status as
  it was.
\<close>

theorem terminal_status_final:
  assumes "backgroundTerminals (terminalRun newAgent rs) tid = Some terminal"
    and "terminal_status terminal \<noteq> started"
    and "\<forall>r \<in> set rs'. createdId r \<noteq> Some tid"
  shows "(case backgroundTerminals (terminalRun (terminalRun newAgent rs) rs') tid of
            None \<Rightarrow> ReleaseTerminal tid \<in> set rs'
          | Some terminal' \<Rightarrow> terminal_status terminal' = terminal_status terminal)
     \<and> map_option terminal_status
          (backgroundTerminals (snd (terminal_kill (terminalRun newAgent rs) tid)) tid) =
        Some (terminal_status terminal)"
proof -
  have "terminal_status terminal = started \<or> terminal_status terminal = killed"
    using terminalRun_statuses[of newAgent rs tid terminal] assms(1)
    by (simp add: newAgent_def)
  then have k: "terminal_status terminal = killed" using assms(2) by simp
  have A: "(case backgroundTerminals (terminalRun (terminalRun newAgent rs) rs') tid of
            None \<Rightarrow> ReleaseTerminal tid \<in> set rs'
          | Some terminal' \<Rightarrow> terminal_status terminal' = terminal_status terminal)"
    using terminalRun_killed[OF assms(1) k assms(3)] k by (simp split: option.splits)
  have B: "map_option terminal_status
          (backgroundTerminals (snd (terminal_kill (terminalRun newAgent rs) tid)) tid) =
        Some (terminal_status terminal)"
    using assms(1) k by (simp add: terminal_kill_def)
  show ?thesis using A B by blast
qed

theorem terminal_status_final_witness:
  "map_option terminal_status (backgroundTerminals
      (terminalRun newAgent
         [CreateTerminal ''t1'' \<lparr>shellData = Some (Some ''sh1''), shellError = None\<rparr>,
          TerminalKill ''t1'']) ''t1'') = Some killed
   \<and> killed \<noteq> started
   \<and> map_option terminal_status (backgroundTerminals
        (terminalRun
           (terminalRun newAgent
              [CreateTerminal ''t1'' \<lparr>shellData = Some (Some ''sh1''), shellError = None\<rparr>,
               TerminalKill ''t1''])
           [TerminalOutput ''t1'', TerminalKill ''t1'', WaitForTerminalExit ''t1'',
            CreateTerminal ''t2'' \<lparr>shellData = Some (Some ''sh2''), shellError = None\<rparr>])
        ''t1'') = Some killed"
proof -
  let ?rs = "[CreateTerminal ''t1'' \<lparr>shellData = Some (Some ''sh1''), shellError = None\<rparr>,
          TerminalKill ''t1'']"
  let ?rs' = "[TerminalOutput ''t1'', TerminalKill ''t1'', WaitForTerminalExit ''t1'',
          CreateTerminal ''t2'' \<lparr>shellData = Some (Some ''sh2''), shellError = None\<rparr>]"
  let ?t = "\<lparr>shellId = ''sh1'', terminal_output = [], exitStatus = None,
             terminal_status = killed\<rparr>"
  have h1: "backgroundTerminals (terminalRun newAgent ?rs) ''t1'' = Some ?t"
    by (simp add: createTerminal_def terminal_kill_def newAgent_def)
  have h2: "terminal_status ?t \<noteq> started" by simp
  have h3: "\<forall>r \<in> set ?rs'. createdId r \<noteq> Some ''t1''" by simp
  have "case backgroundTerminals (terminalRun (terminalRun newAgent ?rs) ?rs') ''t1'' of
            None \<Rightarrow> ReleaseTerminal ''t1'' \<in> set ?rs'
          | Some terminal' \<Rightarrow> terminal_status terminal' = terminal_status ?t"
    using terminal_status_final[OF h1 h2 h3] by blast
  then have "map_option terminal_status
      (backgroundTerminals (terminalRun (terminalRun newAgent ?rs) ?rs') ''t1'') = Some killed"
    by (auto split: option.splits)
  then show ?thesis using h1 by simp
qed

section \<open>prompt and setSessionMode\<close>

text \<open>
  Claim C9. When \<open>prompt\<close> is called for an existing session, the prompt is sent upstream
  (it is not a slash command that \<open>handleCommand\<close> handled) and the upstream call returns
  a final message without a call error, \<open>prompt\<close> returns a stop reason and does not
  throw: \<open>cancelled\<close> when the message has an error named MessageAbortedError, \<open>refusal\<close>
  when it has an error of another name, \<open>end_turn\<close> when it has no error.
\<close>

theorem prompt_stop_reason:
  assumes "sessions a (prompt_sessionId params) = Some session"
    and "isSlashCommand (prompt_blocks params) \<longrightarrow> command = CommandReturned False"
    and "promptError upstream = None"
    and "promptData upstream = Some info"
  shows "fst (prompt a params command upstream) =
     Inr (case info_error info of
            None \<Rightarrow> end_turn
          | Some e \<Rightarrow> if error_name e = ''MessageAbortedError'' then cancelled else refusal)"
  using assms by (auto simp add: prompt_def promptUpstream_def stopReasonOf_def Let_def)

theorem prompt_stop_reason_witness:
  "fst (prompt (putSession newAgent ''s1'' initialSession)
     \<lparr>prompt_sessionId = ''s1'', prompt_blocks = [PromptTextBlock ''hello'']\<rparr>
     (CommandReturned True)
     \<lparr>promptData = Some \<lparr>info_sessionID = ''s1'',
          info_error = Some \<lparr>error_name = ''MessageAbortedError'', error_message = None,
                              error_data_json = ''{}''\<rparr>\<rparr>,
      promptError = None\<rparr>) = Inr cancelled
   \<and> fst (prompt (putSession newAgent ''s1'' initialSession)
     \<lparr>prompt_sessionId = ''s1'', prompt_blocks = [PromptTextBlock ''hello'']\<rparr>
     (CommandReturned True)
     \<lparr>promptData = Some \<lparr>info_sessionID = ''s1'',
          info_error = Some \<lparr>error_name = ''ProviderAuthError'', error_message = None,
                              error_data_json = ''{}''\<rparr>\<rparr>,
      promptError = None\<rparr>) = Inr refusal
   \<and> fst (prompt (putSession newAgent ''s1'' initialSession)
     \<lparr>prompt_sessionId = ''s1'', prompt_blocks = [PromptTextBlock ''hello'']\<rparr>
     (CommandReturned True)
     \<lparr>promptData = Some \<lparr>info_sessionID = ''s1'', info_error = None\<rparr>,
      promptError = None\<rparr>) = Inr end_turn"
proof -
  let ?a = "putSession newAgent ''s1'' initialSession"
  let ?p = "\<lparr>prompt_sessionId = ''s1'', prompt_blocks = [PromptTextBlock ''hello'']\<rparr>"
  let ?abort = "\<lparr>info_sessionID = ''s1'',
          info_error = Some \<lparr>error_name = ''MessageAbortedError'', error_message = None,
                              error_data_json = ''{}''\<rparr>\<rparr>"
  let ?auth = "\<lparr>info_sessionID = ''s1'',
          info_error = Some \<lparr>error_name = ''ProviderAuthError'', error_message = None,
                              error_data_json = ''{}''\<rparr>\<rparr>"
  let ?ok = "\<lparr>info_sessionID = ''s1'', info_error = None\<rparr>"
  have h1: "sessions ?a (prompt_sessionId ?p) = Some initialSession"
    by (simp add: putSession_def)
  have h2: "isSlashCommand (prompt_blocks ?p) \<longrightarrow> CommandReturned True = CommandReturned False"
    by (simp add: isSlashCommand_def)
  have e: "promptError \<lparr>promptData = Some m, promptError = None\<rparr> = None" for m
    by simp
  have d: "promptData \<lparr>promptData = Some m, promptError = None\<rparr> = Some m" for m
    by simp
  show ?thesis
    using prompt_stop_reason[OF h1 h2 e d, of ?abort]
      prompt_stop_reason[OF h1 h2 e d, of ?auth]
      prompt_stop_reason[OF h1 h2 e d, of ?ok]
    by simp
qed

text \<open>
  Claim C10. For an existing session, \<open>setSessionMode\<close> with a \<open>modeId\<close> among default,
  acceptEdits, plan, bypassPermissions returns without error; the state after it differs
  from the state before only in the \<open>permissionMode\<close> of that session, and reading that
  \<open>permissionMode\<close> back gives the \<open>modeId\<close>. With any other \<open>modeId\<close> it throws and the
  whole state is unchanged.
\<close>

theorem setSessionMode_result:
  assumes "sessions a (mode_sessionId params) = Some session"
  shows "(modeId params \<in> {''default'', ''acceptEdits'', ''plan'', ''bypassPermissions''} \<longrightarrow>
           setSessionMode a params =
             (Inr (), a\<lparr>sessions := (sessions a)(mode_sessionId params \<mapsto>
                        session\<lparr>permissionMode := modeId params\<rparr>)\<rparr>)
           \<and> map_option permissionMode
                (sessions (snd (setSessionMode a params)) (mode_sessionId params)) =
               Some (modeId params))
       \<and> (modeId params \<notin> {''default'', ''acceptEdits'', ''plan'', ''bypassPermissions''} \<longrightarrow>
           setSessionMode a params = (Inl InvalidMode, a))"
  using assms by (simp add: setSessionMode_def putSession_def)

theorem setSessionMode_result_witness:
  "map_option permissionMode
     (sessions (newAgent\<lparr>sessions := [''s1'' \<mapsto> initialSession]\<rparr>) ''s1'') = Some ''default''
   \<and> fst (setSessionMode (newAgent\<lparr>sessions := [''s1'' \<mapsto> initialSession]\<rparr>)
      \<lparr>mode_sessionId = ''s1'', modeId = ''plan''\<rparr>) = Inr ()
   \<and> map_option permissionMode
       (sessions (snd (setSessionMode (newAgent\<lparr>sessions := [''s1'' \<mapsto> initialSession]\<rparr>)
          \<lparr>mode_sessionId = ''s1'', modeId = ''plan''\<rparr>)) ''s1'') = Some ''plan''
   \<and> setSessionMode (newAgent\<lparr>sessions := [''s1'' \<mapsto> initialSession]\<rparr>)
      \<lparr>mode_sessionId = ''s1'', modeId = ''yolo''\<rparr>
     = (Inl InvalidMode, newAgent\<lparr>sessions := [''s1'' \<mapsto> initialSession]\<rparr>)"
proof -
  let ?a = "newAgent\<lparr>sessions := [''s1'' \<mapsto> initialSession]\<rparr>"
  have h: "sessions ?a (mode_sessionId \<lparr>mode_sessionId = ''s1'', modeId = m\<rparr>) =
      Some initialSession" for m
    by simp
  have m0: "map_option permissionMode (sessions ?a ''s1'') = Some ''default''"
    by (simp add: initialSession_def)
  show ?thesis
    using m0 setSessionMode_result[OF h, of "''plan''"] setSessionMode_result[OF h, of "''yolo''"]
    by simp
qed

end
